theory Spec2Isabelle
  imports Complex_Main "HOL-Library.Log_Nat"
begin

section \<open>starmap.py: the star-map generator\<close>

text \<open>
  A shallow embedding of \<^verbatim>\<open>generate_starmap\<close> (src/starmap.py, lines 61-224) and of the
  module constants it reads.

  The function is one straight-line body. The model keeps its order and cuts it into the
  three line ranges it consists of:
  \<^item> lines 77-125, the coercion of the textual fields (\<open>coerce\<close>);
  \<^item> lines 128-173, loading the data and projecting the catalog (\<open>observe\<close>);
  \<^item> lines 175-224, filtering, sizing, drawing and saving (\<open>draw\<close>).

  What the function does to the outside (message boxes, downloads, console output, the
  matplotlib calls, the saved file) is recorded as a list of events in the order of the
  calls. An exception that leaves the function is the second component of the result;
  \<open>None\<close> there means that the function returned.

  What the libraries compute is a parameter of the model (the record \<open>world\<close>): the
  float parser, the catalog, the timezone lookup, the date parser and the projection.
  numpy's float64 values are modelled as real numbers: comparisons are exact on finite
  floats, arithmetic is the real-number arithmetic that float64 rounds. The two integers
  that enter this arithmetic (the star scaling and the star size limit) do so through
  their conversion to float64, which is modelled exactly (\<open>float64\<close>).
\<close>

subsection \<open>Module constants (lines 29-39)\<close>

definition STAR_SCALING :: int where "STAR_SCALING = 100"
definition STAR_SIZE_LIMIT :: int where "STAR_SIZE_LIMIT = 400"
definition FIGURE_SIZE :: real where "FIGURE_SIZE = 10"
definition FILENAME :: string where "FILENAME = ''starmap.png''"
definition DPI :: int where "DPI = 500"

subsection \<open>Data\<close>

text \<open>
  The arguments of \<^verbatim>\<open>generate_starmap\<close>, in the order of its signature (lines 62-75).
  The argument \<^verbatim>\<open>output\<close> is the field \<open>output_path\<close>: \<open>output\<close> is a keyword of
  Isabelle.
\<close>

record params =
  use_constellations :: bool
  constellation_color :: string
  constellation_width :: real
  bg_color :: string
  bg_alpha :: real
  star_color :: string
  time :: string
  lat :: string
  long :: string
  star_scaling :: string
  max_magnitude :: string
  output_path :: string
  dpi :: string
  star_limit :: string

text \<open>
  The names \<^verbatim>\<open>lat\<close>, \<^verbatim>\<open>long\<close>, \<^verbatim>\<open>star_scaling\<close>, \<^verbatim>\<open>max_magnitude\<close>, \<^verbatim>\<open>dpi\<close> and
  \<^verbatim>\<open>star_limit\<close> are rebound to the coerced values by lines 78-120. The coerced values
  are the fields of \<open>coerced\<close>; \<open>'f\<close> is the type of Python floats, which the function
  only hands on to the libraries.
\<close>

record 'f coerced =
  lat_f :: 'f
  long_f :: 'f
  star_scaling_i :: int
  max_magnitude_i :: int
  dpi_i :: int
  star_limit_i :: int

text \<open>
  A row of the Hipparcos data frame: the index \<^verbatim>\<open>hip\<close> and the columns the function
  and the projection read. Line 173 adds the columns \<^verbatim>\<open>x\<close> and \<^verbatim>\<open>y\<close>.
\<close>

record hip_row =
  hip :: int
  magnitude :: real
  ra_degrees :: real
  dec_degrees :: real

record star_row = hip_row +
  star_x :: real
  star_y :: real

type_synonym edge = "int \<times> int"
type_synonym constellation = "string \<times> edge list"
type_synonym point = "real \<times> real"
type_synonym segment = "point \<times> point"

datatype exn = ValueError | KeyError | Raised string

text \<open>
  What the function does to the outside, call by call: \<^verbatim>\<open>Messagebox.show_error\<close>,
  \<^verbatim>\<open>api.load\<close>, \<^verbatim>\<open>api.load.open\<close>, \<^verbatim>\<open>print\<close> (its text and the number after it),
  \<^verbatim>\<open>subplots\<close> (figure size, face colour and alpha), \<^verbatim>\<open>ax.scatter\<close> (x, y, s and
  colour), \<^verbatim>\<open>ax.add_collection\<close> of a \<^verbatim>\<open>LineCollection\<close> (segments, colour, width),
  \<^verbatim>\<open>ax.set_aspect\<close>, \<^verbatim>\<open>ax.set_xlim\<close>, \<^verbatim>\<open>ax.set_ylim\<close>, \<^verbatim>\<open>ax.axis("off")\<close>,
  \<^verbatim>\<open>fig.savefig\<close> (path and dpi), \<^verbatim>\<open>close\<close> and \<^verbatim>\<open>Messagebox.ok\<close>.
\<close>

datatype event =
    is_ShowError: ShowError string
  | is_ApiLoad: ApiLoad string
  | is_ApiOpen: ApiOpen string
  | is_Print: Print string "real option"
  | is_Subplots: Subplots real string real
  | is_Scatter: Scatter "real list" "real list" "real list" string
  | is_AddCollection: AddCollection "segment list" string real
  | is_SetAspect: SetAspect string
  | is_SetXlim: SetXlim real real
  | is_SetYlim: SetYlim real real
  | is_AxisOff: AxisOff
  | is_SaveFig: SaveFig string int
  | is_CloseFig: CloseFig
  | is_ShowOk: ShowOk string

text \<open>
  The libraries. \<open>'dt\<close> is a \<^verbatim>\<open>datetime\<close>, \<open>'tz\<close> a pytz timezone.
  \<^item> \<open>py_float s\<close>: \<^verbatim>\<open>float(s)\<close>; \<open>None\<close> is its \<^verbatim>\<open>ValueError\<close>.
  \<^item> \<open>load_ephemeris\<close>: the exception of \<^verbatim>\<open>api.load("de421.bsp")\<close>, if it raises.
  \<^item> \<open>load_hipparcos\<close>: \<^verbatim>\<open>hipparcos.load_dataframe\<close> of the opened catalog.
  \<^item> \<open>load_constellations\<close>: \<^verbatim>\<open>stellarium.parse_constellations\<close> of the opened file.
  \<^item> \<open>timezone_at lng lat\<close>: \<^verbatim>\<open>TimezoneFinder().timezone_at(lng=.., lat=..)\<close>, which
    returns a name or \<^verbatim>\<open>None\<close>, or raises.
  \<^item> \<open>strptime s\<close>: \<^verbatim>\<open>datetime.strptime(s, "%Y-%m-%d %H:%M")\<close>; \<open>None\<close> is its
    \<^verbatim>\<open>ValueError\<close>.
  \<^item> \<open>pytz_timezone\<close>: \<^verbatim>\<open>pytz.timezone\<close>.
  \<^item> \<open>localize_utc tz dt\<close>: \<^verbatim>\<open>tz.localize(dt, is_dst=None).astimezone(utc)\<close>.
  \<^item> \<open>project t lat long row\<close>: lines 153-173 for one catalog row, the stereographic
    projection centred on the zenith of the observer at \<open>(lat, long)\<close> at the instant \<open>t\<close>.
  \<^item> \<open>savefig path\<close>: the exception of \<^verbatim>\<open>fig.savefig\<close>, if it raises.
\<close>

record ('f, 'dt, 'tz) world =
  py_float :: "string \<Rightarrow> 'f option"
  load_ephemeris :: "exn option"
  load_hipparcos :: "exn + hip_row list"
  load_constellations :: "exn + constellation list"
  timezone_at :: "'f \<Rightarrow> 'f \<Rightarrow> exn + string option"
  strptime :: "string \<Rightarrow> 'dt option"
  pytz_timezone :: "string option \<Rightarrow> exn + 'tz"
  localize_utc :: "'tz \<Rightarrow> 'dt \<Rightarrow> exn + 'dt"
  project :: "'dt \<Rightarrow> 'f \<Rightarrow> 'f \<Rightarrow> hip_row \<Rightarrow> point"
  savefig :: "string \<Rightarrow> exn option"

subsection \<open>Python's \<^verbatim>\<open>int(str)\<close>\<close>

text \<open>
  \<^verbatim>\<open>int(s)\<close> in base 10 on ASCII text: surrounding whitespace is dropped, one sign is
  optional, then come decimal digits, with single underscores allowed between two digits.
  Anything else raises \<^verbatim>\<open>ValueError\<close> (\<open>None\<close>), and so does a text with more than
  4300 digits (the default of \<^verbatim>\<open>sys.set_int_max_str_digits\<close>; leading zeros count,
  underscores do not). Text outside ASCII is not modelled.
\<close>

text \<open>
  The whitespace that \<^verbatim>\<open>int\<close> drops from ASCII text: tab, line feed, vertical tab,
  form feed, carriage return and space. The separators \<^verbatim>\<open>0x1C\<close> to \<^verbatim>\<open>0x1F\<close> are not
  among them.
\<close>

definition is_space :: "char \<Rightarrow> bool" where
  "is_space c = (c \<in> set [CHR 0x09, CHR 0x0A, CHR 0x0B, CHR 0x0C, CHR 0x0D, CHR 0x20])"

definition strip :: "string \<Rightarrow> string" where
  "strip s = rev (dropWhile is_space (rev (dropWhile is_space s)))"

definition digit_of :: "char \<Rightarrow> int option" where
  "digit_of c = (let n = (of_char c :: nat) in
                 if 48 \<le> n \<and> n \<le> 57 then Some (int n - 48) else None)"

fun digits_from :: "int \<Rightarrow> string \<Rightarrow> int option" where
  "digits_from acc [] = Some acc"
| "digits_from acc [c] =
     (case digit_of c of None \<Rightarrow> None | Some v \<Rightarrow> Some (10 * acc + v))"
| "digits_from acc (c # d # ds) =
     (if c = CHR ''_''
      then (case digit_of d of None \<Rightarrow> None
            | Some v \<Rightarrow> digits_from (10 * acc + v) ds)
      else (case digit_of c of None \<Rightarrow> None
            | Some v \<Rightarrow> digits_from (10 * acc + v) (d # ds)))"

definition is_digit :: "char \<Rightarrow> bool" where
  "is_digit c = (48 \<le> (of_char c :: nat) \<and> (of_char c :: nat) \<le> 57)"

definition max_str_digits :: nat where
  "max_str_digits = 4300"

definition py_digits :: "string \<Rightarrow> int option" where
  "py_digits s =
     (if max_str_digits < length (filter is_digit s) then None
      else case s of [] \<Rightarrow> None
        | c # cs \<Rightarrow> (case digit_of c of None \<Rightarrow> None | Some v \<Rightarrow> digits_from v cs))"

definition py_int :: "string \<Rightarrow> int option" where
  "py_int s = (case strip s of [] \<Rightarrow> None
     | c # cs \<Rightarrow> if c = CHR ''-'' then map_option uminus (py_digits cs)
                else if c = CHR ''+'' then py_digits cs
                else py_digits (c # cs))"

subsection \<open>The messages of the error boxes (lines 80-123)\<close>

definition msg_latitude :: string where
  "msg_latitude = ''The latitude isn't a valid number.'' @ [CHR 0x0A]
     @ ''A valid latitude looks like this: 12.3456''"

definition msg_longitude :: string where
  "msg_longitude = ''The longitude isn't a valid number.'' @ [CHR 0x0A]
     @ ''A valid longitude looks like this: 12.3456''"

definition msg_star_scaling :: string where
  "msg_star_scaling = ''The maximum star size isn't a valid integer number.''"

definition msg_max_magnitude :: string where
  "msg_max_magnitude =
     ''The maximum magnitude isn't a valid integer number from 0 to 15.''"

definition msg_dpi :: string where
  "msg_dpi = ''The DPI isn't a valid integer number.''"

definition msg_star_limit :: string where
  "msg_star_limit = ''The star size limit isn't a valid integer number.''"

subsection \<open>Lines 77-125: coercion of the textual fields\<close>

text \<open>
  Six \<^verbatim>\<open>try\<close> blocks in a row. Each one converts a field; on \<^verbatim>\<open>ValueError\<close> it shows
  its error box and returns. \<open>Inl\<close> carries the message of the box that was shown.
\<close>

definition coerce :: "('f, 'dt, 'tz) world \<Rightarrow> params \<Rightarrow> string + 'f coerced" where
  "coerce w p =
    (case py_float w (lat p) of None \<Rightarrow> Inl msg_latitude | Some lat' \<Rightarrow>
     case py_float w (long p) of None \<Rightarrow> Inl msg_longitude | Some long' \<Rightarrow>
     case py_int (star_scaling p) of None \<Rightarrow> Inl msg_star_scaling | Some star_scaling' \<Rightarrow>
     case py_int (max_magnitude p) of None \<Rightarrow> Inl msg_max_magnitude | Some max_magnitude' \<Rightarrow>
     if max_magnitude' < 0 \<or> max_magnitude' > 15 then Inl msg_max_magnitude else
     case py_int (dpi p) of None \<Rightarrow> Inl msg_dpi | Some dpi' \<Rightarrow>
     case py_int (star_limit p) of None \<Rightarrow> Inl msg_star_limit | Some star_limit' \<Rightarrow>
     Inr \<lparr>lat_f = lat', long_f = long', star_scaling_i = star_scaling',
          max_magnitude_i = max_magnitude', dpi_i = dpi', star_limit_i = star_limit'\<rparr>)"

subsection \<open>Lines 128-173: loading and projecting\<close>

definition constellationship_url :: string where
  "constellationship_url =
     ''https://raw.githubusercontent.com/Stellarium/stellarium/master''
     @ ''/skycultures/modern_st/constellationship.fab''"

text \<open>The three downloads of lines 128, 131 and 139, in this order.\<close>

definition loads :: "event list" where
  "loads = [ApiLoad ''de421.bsp'', ApiOpen ''hipparcos.URL'', ApiOpen constellationship_url]"

text \<open>Line 173: the projected coordinates become the columns \<^verbatim>\<open>x\<close> and \<^verbatim>\<open>y\<close> of the frame.\<close>

definition with_xy :: "(hip_row \<Rightarrow> point) \<Rightarrow> hip_row \<Rightarrow> star_row" where
  "with_xy proj r = hip_row.extend r \<lparr>star_x = fst (proj r), star_y = snd (proj r)\<rparr>"

text \<open>
  The result is the projected frame and the constellations, or the exception that left the
  function, with the downloads that were started before it.
\<close>

definition observe ::
  "('f, 'dt, 'tz) world \<Rightarrow> 'f coerced \<Rightarrow> string
     \<Rightarrow> event list \<times> (exn + star_row list \<times> constellation list)" where
  "observe w v tm =
    (case load_ephemeris w of Some e \<Rightarrow> (take 1 loads, Inl e) | None \<Rightarrow>
     case load_hipparcos w of Inl e \<Rightarrow> (take 2 loads, Inl e) | Inr stars \<Rightarrow>
     case load_constellations w of Inl e \<Rightarrow> (loads, Inl e) | Inr constellations \<Rightarrow>
     case timezone_at w (long_f v) (lat_f v) of Inl e \<Rightarrow> (loads, Inl e) | Inr timezone_str \<Rightarrow>
     case strptime w tm of None \<Rightarrow> (loads, Inl ValueError) | Some dt \<Rightarrow>
     case pytz_timezone w timezone_str of Inl e \<Rightarrow> (loads, Inl e) | Inr local \<Rightarrow>
     case localize_utc w local dt of Inl e \<Rightarrow> (loads, Inl e) | Inr utc_dt \<Rightarrow>
       (loads, Inr (map (with_xy (project w utc_dt (lat_f v) (long_f v))) stars,
                    constellations)))"

subsection \<open>Lines 175-224: filtering, sizing, drawing, saving\<close>

text \<open>
  \<^verbatim>\<open>amax\<close> of a pandas series is the maximum of its values, and \<^verbatim>\<open>nan\<close> (\<open>None\<close>) for a
  series without values.
\<close>

fun amax :: "real list \<Rightarrow> real option" where
  "amax [] = None"
| "amax (v # vs) = Some (fold max vs v)"

text \<open>Line 181: the mask \<^verbatim>\<open>stars.magnitude <= max_magnitude\<close>, for one row.\<close>

definition bright_stars :: "int \<Rightarrow> star_row \<Rightarrow> bool" where
  "bright_stars max_magnitude' r = (magnitude r \<le> of_int max_magnitude')"

text \<open>
  A Python integer that meets a float64 series is converted to float64 first: to the
  nearest float64, and to the one with the even significand when two are equally near.
  A float64 has 53 significant bits, so that an integer below \<open>2 ^ 53\<close> in absolute value
  is kept and a larger one is rounded to a multiple of a power of two. The result is an
  integer again. The conversion raises \<^verbatim>\<open>OverflowError\<close> when the result is beyond
  the largest float64, \<open>float64_max\<close>; \<open>float64\<close> is the conversion of the integers for
  which it does not.
\<close>

definition float64 :: "int \<Rightarrow> int" where
  "float64 n =
     (let a = \<bar>n\<bar> in
      if a < 2 ^ 53 then n
      else let e = nat (bitlen a - 53);
               q = a div 2 ^ e;
               r = a mod 2 ^ e;
               half = 2 ^ (e - 1)
           in sgn n * (if half < r \<or> (r = half \<and> odd q) then q + 1 else q) * 2 ^ e)"


text \<open>Line 186, for one star: \<^verbatim>\<open>star_scaling * 10 ** (magnitude / -2.5)\<close>.\<close>

definition marker_size :: "int \<Rightarrow> real \<Rightarrow> real" where
  "marker_size star_scaling' m = of_int (float64 star_scaling') * 10 powr (m / - 2.5)"

text \<open>
  Line 188, for one star: \<^verbatim>\<open>clip(marker_size, a_min=None, a_max=star_limit)\<close>. The
  bound of the clamp is the float64 value of \<^verbatim>\<open>star_limit\<close>.
\<close>

definition clip :: "real \<Rightarrow> int \<Rightarrow> real" where
  "clip s a_max = min s (of_int (float64 a_max))"

text \<open>
  Lines 203-204: \<^verbatim>\<open>stars[["x", "y"]].loc[labels].values\<close>. For a list of labels, \<^verbatim>\<open>.loc\<close>
  raises \<^verbatim>\<open>KeyError\<close> when a label is not in the index (pandas 1.0 and later), and
  otherwise returns, label by label, the rows that carry it.
\<close>

fun in_index :: "star_row list \<Rightarrow> int \<Rightarrow> bool" where
  "in_index [] l = False"
| "in_index (r # rs) l = (hip r = l \<or> in_index rs l)"

definition loc :: "star_row list \<Rightarrow> int list \<Rightarrow> exn + point list" where
  "loc stars labels =
     (if list_all (in_index stars) labels
      then Inr (concat (map (\<lambda>l. map (\<lambda>r. (star_x r, star_y r))
                                     (filter (\<lambda>r. hip r = l) stars)) labels))
      else Inl KeyError)"

text \<open>
  Line 205: \<^verbatim>\<open>rollaxis(array([xy1, xy2]), 1)\<close> pairs the two arrays row by row. Arrays
  of different lengths do not stack: numpy raises (a \<^verbatim>\<open>ValueError\<close>, or its subclass
  \<^verbatim>\<open>AxisError\<close> in older versions).
\<close>

definition rollaxis :: "point list \<Rightarrow> point list \<Rightarrow> exn + segment list" where
  "rollaxis xy1 xy2 =
     (if length xy1 = length xy2 then Inr (zip xy1 xy2) else Inl ValueError)"

text \<open>Line 175: the edges of all constellations, in catalog order.\<close>

definition edges_of :: "constellation list \<Rightarrow> edge list" where
  "edges_of constellations = concat (map snd constellations)"

text \<open>Lines 176-177 and 203-205: both ends of every edge, looked up in the whole frame.\<close>

definition lines_xy :: "star_row list \<Rightarrow> edge list \<Rightarrow> exn + segment list" where
  "lines_xy stars edges =
     (let edges_star1 = map fst edges;
          edges_star2 = map snd edges
      in case loc stars edges_star1 of Inl e \<Rightarrow> Inl e | Inr xy1 \<Rightarrow>
         case loc stars edges_star2 of Inl e \<Rightarrow> Inl e | Inr xy2 \<Rightarrow>
         rollaxis xy1 xy2)"

text \<open>Lines 179-201: the three console lines, the figure and the scatter plot.\<close>

definition plotted :: "params \<Rightarrow> 'f coerced \<Rightarrow> star_row list \<Rightarrow> event list" where
  "plotted p v stars =
     (let kept = filter (bright_stars (max_magnitude_i v)) stars;
          magnitudes = map magnitude kept;
          sizes = map (marker_size (star_scaling_i v)) magnitudes;
          clipped = map (\<lambda>s. clip s (star_limit_i v)) sizes
      in [Print ''Max bright before magnitude: '' (amax (map magnitude stars)),
          Print ''Max bright after magnitude: '' (amax magnitudes),
          Print ''Max bright after scale: '' (amax sizes),
          Subplots FIGURE_SIZE (bg_color p) (bg_alpha p),
          Scatter (map star_x kept) (map star_y kept) clipped (star_color p)])"

text \<open>Lines 207-212: the line collection, when constellations are requested.\<close>

definition collection :: "params \<Rightarrow> segment list \<Rightarrow> event list" where
  "collection p segments =
     (if use_constellations p
      then [AddCollection segments (constellation_color p) (constellation_width p)]
      else [])"

text \<open>Lines 215-220: aspect ratio, limits of the two axes, axes off.\<close>

definition framing :: "event list" where
  "framing = [SetAspect ''equal'', SetXlim (- 1) 1, SetYlim (- 1) 1, AxisOff]"

text \<open>Lines 221-224: saving with the module constant \<^verbatim>\<open>DPI\<close>, closing, the final box.\<close>

definition saved :: "params \<Rightarrow> event list" where
  "saved p = [SaveFig (output_path p) DPI, CloseFig, ShowOk ''Done!'']"

definition draw ::
  "('f, 'dt, 'tz) world \<Rightarrow> params \<Rightarrow> 'f coerced \<Rightarrow> star_row list \<Rightarrow> constellation list
     \<Rightarrow> event list \<times> exn option" where
  "draw w p v stars constellations =
    (let edges = edges_of constellations
     in case lines_xy stars edges of Inl e \<Rightarrow> (plotted p v stars, Some e)
        | Inr segments \<Rightarrow>
     case savefig w (output_path p) of
       Some e \<Rightarrow> (plotted p v stars @ collection p segments @ framing, Some e)
     | None \<Rightarrow> (plotted p v stars @ collection p segments @ framing @ saved p, None))"

subsection \<open>The function\<close>

definition generate_starmap ::
  "('f, 'dt, 'tz) world \<Rightarrow> params \<Rightarrow> event list \<times> exn option" where
  "generate_starmap w p =
    (case coerce w p of Inl msg \<Rightarrow> ([ShowError msg], None) | Inr v \<Rightarrow>
     case observe w v (time p) of (started, Inl e) \<Rightarrow> (started, Some e)
     | (started, Inr (stars, constellations)) \<Rightarrow>
         (case draw w p v stars constellations of
            (drawn, result) \<Rightarrow> (started @ drawn, result)))"

subsection \<open>A small world to run the function in\<close>

text \<open>
  A catalog of two stars, of magnitudes 1.0 and 14.0, joined by one constellation edge;
  every library call succeeds; the float and date parsers know the strings of
  \<open>demo_params\<close>. The projection is a stand-in that puts the first star at \<open>(1/2, 0)\<close>
  and the second one at \<open>(2, -1)\<close>, outside the square of the axes.
\<close>

definition demo_stars :: "hip_row list" where
  "demo_stars =
     [\<lparr>hip = 1, magnitude = 1, ra_degrees = 45, dec_degrees = 0\<rparr>,
      \<lparr>hip = 2, magnitude = 14, ra_degrees = 180, dec_degrees = - 45\<rparr>]"

definition demo_world :: "(real, nat, string) world" where
  "demo_world =
     \<lparr>py_float = (\<lambda>s. if s = ''44.5'' then Some (44.5 :: real)
                       else if s = ''26.25'' then Some 26.25 else None),
      load_ephemeris = None,
      load_hipparcos = Inr demo_stars,
      load_constellations = Inr [(''Dem'', [(1, 2)])],
      timezone_at = (\<lambda>lng lat. Inr (Some ''Europe/Bucharest'')),
      strptime = (\<lambda>s. if s = ''2024-01-01 22:00'' then Some (0 :: nat) else None),
      pytz_timezone = (\<lambda>z. case z of None \<Rightarrow> Inl (Raised ''UnknownTimeZoneError'')
                                | Some n \<Rightarrow> Inr n),
      localize_utc = (\<lambda>tz dt. Inr dt),
      project = (\<lambda>t la lo r. (ra_degrees r / 90, dec_degrees r / 45)),
      savefig = (\<lambda>path. None)\<rparr>"

definition demo_params :: params where
  "demo_params =
     \<lparr>use_constellations = True,
      constellation_color = ''#ffffff'',
      constellation_width = 0.3,
      bg_color = ''#000000'',
      bg_alpha = 1,
      star_color = ''#ffffff'',
      time = ''2024-01-01 22:00'',
      lat = ''44.5'',
      long = ''26.25'',
      star_scaling = ''100'',
      max_magnitude = ''10'',
      output_path = ''starmap.png'',
      dpi = ''300'',
      star_limit = ''400''\<rparr>"

section \<open>Properties\<close>

subsection \<open>The shape of a run\<close>

lemmas py_int_eval = py_int_def strip_def is_space_def py_digits_def digit_of_def
  is_digit_def max_str_digits_def



lemma py_int_too_long: "py_int (replicate 4301 (CHR ''0'')) = None"
proof -
  have "replicate 4301 (CHR ''0'') = CHR ''0'' # replicate 4300 (CHR ''0'')"
    by (simp add: replicate_Suc[symmetric] del: replicate_Suc)
  moreover have "strip (replicate 4301 (CHR ''0'')) = replicate 4301 (CHR ''0'')"
    by (simp add: strip_def is_space_def dropWhile_replicate)
  moreover have "length (filter is_digit (replicate 4301 (CHR ''0''))) = 4301"
    by (simp add: is_digit_def)
  ultimately show ?thesis
    by (simp add: py_int_def py_digits_def max_str_digits_def)
qed






lemma coerce_Inl_cases:
  "coerce w p = Inl m \<Longrightarrow>
     m \<in> {msg_latitude, msg_longitude, msg_star_scaling, msg_max_magnitude,
          msg_dpi, msg_star_limit}"
  by (auto simp: coerce_def split: option.splits if_splits)


lemma coerce_max_magnitude:
  assumes "py_int m1 = Some n1" "0 \<le> n1" "n1 \<le> 15"
      and "py_int m2 = Some n2" "0 \<le> n2" "n2 \<le> 15"
  shows "(\<exists>e. coerce w (p\<lparr>max_magnitude := m1\<rparr>) = Inl e
              \<and> coerce w (p\<lparr>max_magnitude := m2\<rparr>) = Inl e)
         \<or> (\<exists>v1 v2. coerce w (p\<lparr>max_magnitude := m1\<rparr>) = Inr v1
              \<and> coerce w (p\<lparr>max_magnitude := m2\<rparr>) = Inr v2
              \<and> lat_f v1 = lat_f v2 \<and> long_f v1 = long_f v2)"
  using assms by (auto simp: coerce_def split: option.splits)

lemma generate_rejected:
  "coerce w p = Inl m \<Longrightarrow> generate_starmap w p = ([ShowError m], None)"
  by (simp add: generate_starmap_def)

lemma observe_Inr_loads:
  "observe w v tm = (started, Inr x) \<Longrightarrow> started = loads"
  by (auto simp: observe_def split: option.splits sum.splits)

lemma observe_started:
  "observe w v tm = (started, r) \<Longrightarrow> set started \<subseteq> set loads"
  by (auto simp: observe_def split: option.splits sum.splits dest: in_set_takeD)


lemma observe_Inr_data:
  assumes "observe w v tm = (started, Inr (stars, cons))"
  shows "\<exists>catalog utc_dt. load_hipparcos w = Inr catalog \<and> load_constellations w = Inr cons
           \<and> stars = map (with_xy (project w utc_dt (lat_f v) (long_f v))) catalog"
  using assms by (auto simp: observe_def split: option.splits sum.splits)

lemma observe_cong:
  "lat_f v1 = lat_f v2 \<Longrightarrow> long_f v1 = long_f v2 \<Longrightarrow> observe w v1 tm = observe w v2 tm"
  by (simp add: observe_def split: option.splits sum.splits)

lemma with_xy_fields [simp]:
  "hip (with_xy f r) = hip r" "magnitude (with_xy f r) = magnitude r"
  "star_x (with_xy f r) = fst (f r)" "star_y (with_xy f r) = snd (f r)"
  by (simp_all add: with_xy_def hip_row.extend_def)

lemma generate_raised_early:
  "coerce w p = Inr v \<Longrightarrow> observe w v (time p) = (started, Inl e) \<Longrightarrow>
     generate_starmap w p = (started, Some e)"
  by (simp add: generate_starmap_def)

lemma generate_draw:
  "coerce w p = Inr v \<Longrightarrow> observe w v (time p) = (started, Inr (stars, cons)) \<Longrightarrow>
     generate_starmap w p =
       (loads @ fst (draw w p v stars cons), snd (draw w p v stars cons))"
  by (auto simp: generate_starmap_def split: prod.splits dest: observe_Inr_loads)


lemma draw_cases:
  "draw w p v stars cons =
     (case lines_xy stars (edges_of cons) of
        Inl e \<Rightarrow> (plotted p v stars, Some e)
      | Inr segs \<Rightarrow>
          (case savefig w (output_path p) of
             Some e \<Rightarrow> (plotted p v stars @ collection p segs @ framing, Some e)
           | None \<Rightarrow> (plotted p v stars @ collection p segs @ framing @ saved p, None)))"
  by (simp add: draw_def Let_def)

lemma ShowOk_notin_plotted: "ShowOk s \<notin> set (plotted p v stars)"
  by (simp add: plotted_def Let_def)

lemma ShowOk_notin_parts:
  "ShowOk s \<notin> set loads" "ShowOk s \<notin> set (collection p segs)" "ShowOk s \<notin> set framing"
  by (simp_all add: loads_def collection_def framing_def)

text \<open>
  A run that reaches the final box (line 224) has passed every step, and its events are
  the downloads, the plot, the line collection if requested, the framing and the save.
\<close>

lemma success_inv:
  assumes "ShowOk ''Done!'' \<in> set (fst (generate_starmap w p))"
  obtains v stars cons segs where
    "coerce w p = Inr v"
    "observe w v (time p) = (loads, Inr (stars, cons))"
    "lines_xy stars (edges_of cons) = Inr segs"
    "savefig w (output_path p) = None"
    "generate_starmap w p =
       (loads @ plotted p v stars @ collection p segs @ framing @ saved p, None)"
proof (cases "coerce w p")
  case (Inl m)
  with assms show ?thesis by (simp add: generate_rejected)
next
  case (Inr v)
  obtain started r where obs: "observe w v (time p) = (started, r)"
    by (cases "observe w v (time p)")
  show ?thesis
  proof (cases r)
    case (Inl e)
    with assms Inr obs observe_started[OF obs] show ?thesis
      using ShowOk_notin_parts(1) by (auto simp: generate_raised_early)
  next
    case r: (Inr sc)
    obtain stars cons where sc: "sc = (stars, cons)" by (cases sc)
    have st: "started = loads" using obs r by (auto dest: observe_Inr_loads)
    have gen: "generate_starmap w p =
       (loads @ fst (draw w p v stars cons), snd (draw w p v stars cons))"
      using generate_draw[OF Inr] obs r sc by simp
    show ?thesis
    proof (cases "lines_xy stars (edges_of cons)")
      case (Inl e)
      with assms gen show ?thesis
        by (simp add: draw_cases ShowOk_notin_plotted ShowOk_notin_parts)
    next
      case segs: (Inr segs)
      show ?thesis
      proof (cases "savefig w (output_path p)")
        case (Some e)
        with assms gen segs show ?thesis
          by (simp add: draw_cases ShowOk_notin_plotted ShowOk_notin_parts)
      next
        case None
        show ?thesis
          using that[OF Inr _ segs None] obs r sc st gen segs None
          by (simp add: draw_cases)
      qed
    qed
  qed
qed

lemma filter_parts_SaveFig:
  "filter is_SaveFig loads = []" "filter is_SaveFig (plotted p v stars) = []"
  "filter is_SaveFig (collection p segs) = []" "filter is_SaveFig framing = []"
  "filter is_SaveFig (saved p) = [SaveFig (output_path p) DPI]"
  by (simp_all add: loads_def plotted_def collection_def framing_def saved_def Let_def)



lemma filter_parts_AddCollection:
  "filter is_AddCollection loads = []" "filter is_AddCollection (plotted p v stars) = []"
  "filter is_AddCollection (collection p segs) = collection p segs"
  "filter is_AddCollection framing = []" "filter is_AddCollection (saved p) = []"
  by (simp_all add: loads_def plotted_def collection_def framing_def saved_def Let_def)



lemma collection_of_run:
  assumes "coerce w p = Inr v" and "observe w v (time p) = (started, Inr (stars, cons))"
  shows "filter is_AddCollection (fst (generate_starmap w p)) =
           (case lines_xy stars (edges_of cons) of Inl e \<Rightarrow> [] | Inr segs \<Rightarrow> collection p segs)"
  using generate_draw[OF assms]
  by (simp add: draw_cases filter_parts_AddCollection split: sum.splits option.splits)

lemma result_of_run:
  assumes "coerce w p = Inr v" and "observe w v (time p) = (started, Inr (stars, cons))"
  shows "snd (generate_starmap w p) =
           (case lines_xy stars (edges_of cons) of Inl e \<Rightarrow> Some e
            | Inr segs \<Rightarrow> savefig w (output_path p))"
  using generate_draw[OF assms]
  by (simp add: draw_cases split: sum.splits option.splits)

subsection \<open>The lookup of the edges\<close>

lemma in_index_iff: "in_index stars l = (l \<in> hip ` set stars)"
  by (induction stars) auto

lemma filter_hip_unique:
  assumes "distinct (map hip stars)" and "r \<in> set stars"
  shows "filter (\<lambda>r'. hip r' = hip r) stars = [r]"
  using assms
proof (induction stars)
  case Nil
  then show ?case by simp
next
  case (Cons s stars)
  show ?case
  proof (cases "r = s")
    case True
    have "filter (\<lambda>r'. hip r' = hip s) stars = []"
      using Cons.prems(1) by (auto simp: filter_empty_conv image_iff)
    with True show ?thesis by simp
  next
    case False
    with Cons.prems have "r \<in> set stars" and "hip s \<noteq> hip r" by auto
    with Cons show ?thesis by simp
  qed
qed

lemma loc_resolved:
  assumes "distinct (map hip stars)" and "list_all (in_index stars) labels"
  shows "\<exists>pts. loc stars labels = Inr pts
           \<and> list_all2 (\<lambda>l pt. \<exists>r \<in> set stars. hip r = l \<and> pt = (star_x r, star_y r))
                labels pts"
proof -
  have "list_all2 (\<lambda>l pt. \<exists>r \<in> set stars. hip r = l \<and> pt = (star_x r, star_y r)) labels
          (concat (map (\<lambda>l. map (\<lambda>r. (star_x r, star_y r))
                                 (filter (\<lambda>r. hip r = l) stars)) labels))"
    using assms(2)
  proof (induction labels)
    case Nil
    then show ?case by simp
  next
    case (Cons l labels)
    then obtain r where r: "r \<in> set stars" "hip r = l"
      by (auto simp: in_index_iff)
    have "filter (\<lambda>r'. hip r' = l) stars = [r]"
      using filter_hip_unique[OF assms(1) r(1)] r(2) by simp
    with Cons r show ?case by auto
  qed
  with assms(2) show ?thesis by (simp add: loc_def)
qed

lemma list_all_edges:
  "list_all (\<lambda>(a, b). in_index stars a \<and> in_index stars b) edges =
     (list_all (in_index stars) (map fst edges) \<and> list_all (in_index stars) (map snd edges))"
  by (induction edges) auto

lemma lines_xy_KeyError:
  assumes "\<not> list_all (\<lambda>(a, b). in_index stars a \<and> in_index stars b) edges"
  shows "lines_xy stars edges = Inl KeyError"
proof -
  from assms have "\<not> list_all (in_index stars) (map fst edges)
                   \<or> \<not> list_all (in_index stars) (map snd edges)"
    by (simp add: list_all_edges)
  then show ?thesis
    by (auto simp: lines_xy_def Let_def loc_def)
qed

lemma lines_xy_resolved:
  assumes "distinct (map hip stars)"
      and "list_all (\<lambda>(a, b). in_index stars a \<and> in_index stars b) edges"
  shows "\<exists>segs. lines_xy stars edges = Inr segs
           \<and> list_all2 (\<lambda>(a, b) (pa, pb). \<exists>ra \<in> set stars. \<exists>rb \<in> set stars.
                          hip ra = a \<and> hip rb = b
                          \<and> pa = (star_x ra, star_y ra) \<and> pb = (star_x rb, star_y rb))
                edges segs"
proof -
  from assms(2) have a1: "list_all (in_index stars) (map fst edges)"
    and a2: "list_all (in_index stars) (map snd edges)"
    by (simp_all add: list_all_edges)
  from loc_resolved[OF assms(1) a1] obtain xy1 where
    1: "loc stars (map fst edges) = Inr xy1"
       "list_all2 (\<lambda>l pt. \<exists>r \<in> set stars. hip r = l \<and> pt = (star_x r, star_y r))
          (map fst edges) xy1"
    by blast
  from loc_resolved[OF assms(1) a2] obtain xy2 where
    2: "loc stars (map snd edges) = Inr xy2"
       "list_all2 (\<lambda>l pt. \<exists>r \<in> set stars. hip r = l \<and> pt = (star_x r, star_y r))
          (map snd edges) xy2"
    by blast
  have len: "length xy1 = length edges" "length xy2 = length edges"
    using 1(2) 2(2) by (auto dest: list_all2_lengthD)
  have "lines_xy stars edges = Inr (zip xy1 xy2)"
    using 1(1) 2(1) len by (simp add: lines_xy_def rollaxis_def)
  moreover have "list_all2 (\<lambda>(a, b) (pa, pb). \<exists>ra \<in> set stars. \<exists>rb \<in> set stars.
                          hip ra = a \<and> hip rb = b
                          \<and> pa = (star_x ra, star_y ra) \<and> pb = (star_x rb, star_y rb))
                edges (zip xy1 xy2)"
    unfolding list_all2_conv_all_nth
  proof (intro conjI allI impI)
    show "length edges = length (zip xy1 xy2)" using len by simp
  next
    fix i assume i: "i < length edges"
    from 1(2) i have "\<exists>r \<in> set stars. hip r = fst (edges ! i) \<and> xy1 ! i = (star_x r, star_y r)"
      by (auto simp: list_all2_conv_all_nth)
    moreover from 2(2) i
    have "\<exists>r \<in> set stars. hip r = snd (edges ! i) \<and> xy2 ! i = (star_x r, star_y r)"
      by (auto simp: list_all2_conv_all_nth)
    ultimately show "(case edges ! i of (a, b) \<Rightarrow> \<lambda>(pa, pb). \<exists>ra \<in> set stars. \<exists>rb \<in> set stars.
                          hip ra = a \<and> hip rb = b
                          \<and> pa = (star_x ra, star_y ra) \<and> pb = (star_x rb, star_y rb))
            (zip xy1 xy2 ! i)"
      using i len by (auto simp: split_beta)
  qed
  ultimately show ?thesis by blast
qed

subsection \<open>The marker size\<close>





subsection \<open>The run in the small world\<close>

lemmas demo_eval = generate_starmap_def coerce_def observe_def draw_def lines_xy_def loc_def
  rollaxis_def plotted_def collection_def framing_def saved_def loads_def edges_of_def
  with_xy_def bright_stars_def demo_world_def demo_params_def demo_stars_def
  hip_row.extend_def py_int_eval Let_def DPI_def FIGURE_SIZE_def

lemma demo_run:
  "generate_starmap demo_world demo_params =
     ([ApiLoad ''de421.bsp'', ApiOpen ''hipparcos.URL'', ApiOpen constellationship_url,
       Print ''Max bright before magnitude: '' (Some 14),
       Print ''Max bright after magnitude: '' (Some 1),
       Print ''Max bright after scale: '' (Some (marker_size 100 1)),
       Subplots 10 ''#000000'' 1,
       Scatter [1 / 2] [0] [clip (marker_size 100 1) 400] ''#ffffff'',
       AddCollection [((1 / 2, 0), (2, - 1))] ''#ffffff'' 0.3,
       SetAspect ''equal'', SetXlim (- 1) 1, SetYlim (- 1) 1, AxisOff,
       SaveFig ''starmap.png'' 500, CloseFig, ShowOk ''Done!''], None)"
  by (simp add: demo_eval)

lemma demo_coerce:
  "coerce demo_world demo_params =
     Inr \<lparr>lat_f = 44.5, long_f = 26.25, star_scaling_i = 100,
          max_magnitude_i = 10, dpi_i = 300, star_limit_i = 400\<rparr>"
  by (simp add: coerce_def demo_world_def demo_params_def py_int_eval)

lemma demo_observe:
  "observe demo_world \<lparr>lat_f = 44.5, long_f = 26.25, star_scaling_i = 100,
          max_magnitude_i = m, dpi_i = 300, star_limit_i = 400\<rparr> (time demo_params) =
     (loads, Inr (map (with_xy (\<lambda>r. (ra_degrees r / 90, dec_degrees r / 45))) demo_stars,
                  [(''Dem'', [(1, 2)])]))"
  by (simp add: observe_def demo_world_def demo_params_def)

subsection \<open>C1: the DPI of the saved image\<close>

text \<open>
  C1 says that the image is saved at the DPI the user asked for. The code does not do
  that: line 221 passes the module constant \<^verbatim>\<open>DPI\<close> (500), not the argument \<^verbatim>\<open>dpi\<close>
  that lines 113-117 coerce. Every run that reaches the final box saves exactly once, at
  \<open>output_path\<close>, with 500 dots per inch, whatever the argument \<open>dpi\<close> is.
\<close>

theorem C1_saved_with_constant_dpi:
  assumes "ShowOk ''Done!'' \<in> set (fst (generate_starmap w p))"
  shows "filter is_SaveFig (fst (generate_starmap w p)) = [SaveFig (output_path p) 500]"
proof (rule success_inv[OF assms])
  fix v :: "'a coerced" and stars cons segs
  assume "generate_starmap w p =
       (loads @ plotted p v stars @ collection p segs @ framing @ saved p, None)"
  then show ?thesis by (simp add: filter_parts_SaveFig DPI_def)
qed

text \<open>In the small world the user asks for 300 and the image is saved with 500.\<close>

theorem C1_saved_with_constant_dpi_witness:
  "ShowOk ''Done!'' \<in> set (fst (generate_starmap demo_world demo_params))
   \<and> py_int (dpi demo_params) = Some 300
   \<and> filter is_SaveFig (fst (generate_starmap demo_world demo_params))
       = [SaveFig ''starmap.png'' 500]"
proof -
  have ok: "ShowOk ''Done!'' \<in> set (fst (generate_starmap demo_world demo_params))"
    by (simp add: demo_run)
  have "py_int (dpi demo_params) = Some 300"
    by (simp add: demo_params_def py_int_eval)
  with ok C1_saved_with_constant_dpi[OF ok] show ?thesis
    by (simp add: demo_params_def)
qed

subsection \<open>C2: when the edges are looked up\<close>




subsection \<open>C3: a date-time string that does not parse\<close>

text \<open>
  C3 says that a date-time string that does not parse gives one error box and no
  unhandled exception. The code does not do that: line 145 is outside every \<^verbatim>\<open>try\<close>
  block. When all other fields are valid and the downloads and the timezone lookup
  succeed, the \<^verbatim>\<open>ValueError\<close> of \<^verbatim>\<open>strptime\<close> leaves \<^verbatim>\<open>generate_starmap\<close>; the only
  events are the three downloads, and no box is shown.
\<close>

theorem C3_bad_time_raises:
  assumes "coerce w p = Inr v"
      and "load_ephemeris w = None"
      and "load_hipparcos w = Inr stars"
      and "load_constellations w = Inr cons"
      and "timezone_at w (long_f v) (lat_f v) = Inr tz"
      and "strptime w (time p) = None"
  shows "generate_starmap w p = (loads, Some ValueError)"
  using assms by (simp add: generate_starmap_def observe_def)

theorem C3_bad_time_raises_witness:
  "generate_starmap demo_world (demo_params\<lparr>time := ''tomorrow''\<rparr>)
     = ([ApiLoad ''de421.bsp'', ApiOpen ''hipparcos.URL'', ApiOpen constellationship_url],
        Some ValueError)"
proof -
  let ?p = "demo_params\<lparr>time := ''tomorrow''\<rparr>"
  let ?v = "\<lparr>lat_f = 44.5 :: real, long_f = 26.25, star_scaling_i = 100,
             max_magnitude_i = 10, dpi_i = 300, star_limit_i = 400\<rparr>"
  have 1: "coerce demo_world ?p = Inr ?v"
    by (simp add: coerce_def demo_world_def demo_params_def py_int_eval)
  have 2: "load_ephemeris demo_world = None"
    and 3: "load_hipparcos demo_world = Inr demo_stars"
    and 4: "load_constellations demo_world = Inr [(''Dem'', [(1, 2)])]"
    and 5: "timezone_at demo_world (long_f ?v) (lat_f ?v) = Inr (Some ''Europe/Bucharest'')"
    and 6: "strptime demo_world (time ?p) = None"
    by (simp_all add: demo_world_def demo_params_def)
  from C3_bad_time_raises[OF 1 2 3 4 5 6] show ?thesis
    by (simp add: loads_def)
qed

subsection \<open>C4: the range of the maximum magnitude\<close>




subsection \<open>C5: a latitude that is not a number\<close>

text \<open>
  C5: when the latitude string does not parse as a float, the run consists of the error
  box for the latitude and nothing else: the function returns, no other field is looked
  at (the result is the same for all values of the other fields), nothing is downloaded,
  projected, drawn or saved.
\<close>

theorem C5_bad_latitude_stops_first:
  assumes "py_float w (lat p) = None"
  shows "generate_starmap w p = ([ShowError msg_latitude], None)"
  using assms by (simp add: generate_starmap_def coerce_def)

theorem C5_bad_latitude_stops_first_witness:
  "py_float demo_world (lat (demo_params\<lparr>lat := ''abc''\<rparr>)) = None
   \<and> generate_starmap demo_world (demo_params\<lparr>lat := ''abc''\<rparr>)
       = ([ShowError msg_latitude], None)"
proof -
  have h: "py_float demo_world (lat (demo_params\<lparr>lat := ''abc''\<rparr>)) = None"
    by (simp add: demo_world_def demo_params_def)
  from h C5_bad_latitude_stops_first[OF h] show ?thesis by simp
qed

subsection \<open>C6: the magnitude filter\<close>



subsection \<open>C7: the marker size of a star\<close>




subsection \<open>C8: the size as a function of the magnitude\<close>







subsection \<open>C9: the segments and the magnitude filter\<close>

lemma lines_xy_Inr_present:
  "lines_xy stars edges = Inr segs \<Longrightarrow>
     list_all (\<lambda>(a, b). in_index stars a \<and> in_index stars b) edges"
  using lines_xy_KeyError[of stars edges] by auto

text \<open>
  C9: the segments are computed from the whole frame, so changing \<^verbatim>\<open>max_magnitude\<close>
  never changes them. Two runs in the same world that differ only in a valid
  \<^verbatim>\<open>max_magnitude\<close> add the same line collection and end in the same way. In a run that
  reaches the final box, the frame of \<open>observe\<close> has one row for every row of the catalog
  (none is filtered out), and the segments of both runs are, edge by edge in catalog order,
  the projected \<open>(x, y)\<close> of the two rows of that frame that carry the ids of the edge.
\<close>

theorem C9_segments_ignore_magnitude:
  assumes "py_int m1 = Some n1" "0 \<le> n1" "n1 \<le> 15"
      and "py_int m2 = Some n2" "0 \<le> n2" "n2 \<le> 15"
  shows "filter is_AddCollection (fst (generate_starmap w (p\<lparr>max_magnitude := m1\<rparr>)))
           = filter is_AddCollection (fst (generate_starmap w (p\<lparr>max_magnitude := m2\<rparr>)))
         \<and> snd (generate_starmap w (p\<lparr>max_magnitude := m1\<rparr>))
           = snd (generate_starmap w (p\<lparr>max_magnitude := m2\<rparr>))
         \<and> (ShowOk ''Done!'' \<in> set (fst (generate_starmap w (p\<lparr>max_magnitude := m1\<rparr>)))
              \<and> coerce w (p\<lparr>max_magnitude := m1\<rparr>) = Inr v
              \<and> observe w v (time p) = (started, Inr (stars, cons))
              \<and> load_hipparcos w = Inr catalog
              \<and> distinct (map hip catalog) \<longrightarrow>
            map hip stars = map hip catalog
            \<and> (\<exists>segs.
                 list_all2 (\<lambda>(a, b) (pa, pb). \<exists>ra \<in> set stars. \<exists>rb \<in> set stars.
                              hip ra = a \<and> hip rb = b
                              \<and> pa = (star_x ra, star_y ra) \<and> pb = (star_x rb, star_y rb))
                   (edges_of cons) segs
                 \<and> filter is_AddCollection (fst (generate_starmap w (p\<lparr>max_magnitude := m1\<rparr>)))
                     = (if use_constellations p
                        then [AddCollection segs (constellation_color p) (constellation_width p)]
                        else [])
                 \<and> filter is_AddCollection (fst (generate_starmap w (p\<lparr>max_magnitude := m2\<rparr>)))
                     = (if use_constellations p
                        then [AddCollection segs (constellation_color p) (constellation_width p)]
                        else [])))"
proof -
  let ?p1 = "p\<lparr>max_magnitude := m1\<rparr>" and ?p2 = "p\<lparr>max_magnitude := m2\<rparr>"
  have same: "filter is_AddCollection (fst (generate_starmap w ?p1))
                = filter is_AddCollection (fst (generate_starmap w ?p2))
              \<and> snd (generate_starmap w ?p1) = snd (generate_starmap w ?p2)"
    using coerce_max_magnitude[OF assms, of w p]
  proof (elim disjE exE conjE)
    fix e assume "coerce w ?p1 = Inl e" "coerce w ?p2 = Inl e"
    then show ?thesis by (simp add: generate_rejected)
  next
    fix v1 v2 :: "'a coerced"
    assume c1: "coerce w ?p1 = Inr v1" and c2: "coerce w ?p2 = Inr v2"
      and same: "lat_f v1 = lat_f v2" "long_f v1 = long_f v2"
    have ob: "observe w v1 (time ?p1) = observe w v2 (time ?p2)"
      using observe_cong[OF same] by simp
    obtain started' r where o2: "observe w v2 (time ?p2) = (started', r)"
      by (cases "observe w v2 (time ?p2)")
    with ob have o1: "observe w v1 (time ?p1) = (started', r)" by simp
    show ?thesis
    proof (cases r)
      case (Inl e)
      with c1 c2 o1 o2 observe_started[OF o2] show ?thesis
        by (auto simp: generate_raised_early loads_def filter_empty_conv)
    next
      case (Inr sc)
      obtain stars' cons' where sc: "sc = (stars', cons')" by (cases sc)
      have o1': "observe w v1 (time ?p1) = (started', Inr (stars', cons'))"
        and o2': "observe w v2 (time ?p2) = (started', Inr (stars', cons'))"
        using o1 o2 Inr sc by simp_all
      show ?thesis
        using collection_of_run[OF c1 o1'] collection_of_run[OF c2 o2']
              result_of_run[OF c1 o1'] result_of_run[OF c2 o2']
        by (simp add: collection_def split: sum.splits)
    qed
  qed
  have full: "map hip stars = map hip catalog
            \<and> (\<exists>segs.
                 list_all2 (\<lambda>(a, b) (pa, pb). \<exists>ra \<in> set stars. \<exists>rb \<in> set stars.
                              hip ra = a \<and> hip rb = b
                              \<and> pa = (star_x ra, star_y ra) \<and> pb = (star_x rb, star_y rb))
                   (edges_of cons) segs
                 \<and> filter is_AddCollection (fst (generate_starmap w ?p1))
                     = (if use_constellations p
                        then [AddCollection segs (constellation_color p) (constellation_width p)]
                        else [])
                 \<and> filter is_AddCollection (fst (generate_starmap w ?p2))
                     = (if use_constellations p
                        then [AddCollection segs (constellation_color p) (constellation_width p)]
                        else []))"
    if ok: "ShowOk ''Done!'' \<in> set (fst (generate_starmap w ?p1))"
      and co: "coerce w ?p1 = Inr v"
      and ob: "observe w v (time p) = (started, Inr (stars, cons))"
      and cat: "load_hipparcos w = Inr catalog"
      and dis: "distinct (map hip catalog)"
  proof -
    have ob1: "observe w v (time ?p1) = (started, Inr (stars, cons))" using ob by simp
    from observe_Inr_data[OF ob] cat
    have hips: "map hip stars = map hip catalog" by (auto simp: comp_def)
    with dis have dis': "distinct (map hip stars)" by simp
    have "snd (generate_starmap w ?p1) = None"
      by (rule success_inv[OF ok]) simp
    then obtain segs0 where l: "lines_xy stars (edges_of cons) = Inr segs0"
      using result_of_run[OF co ob1] by (auto split: sum.splits)
    from lines_xy_resolved[OF dis' lines_xy_Inr_present[OF l]] l obtain segs where
      segs: "lines_xy stars (edges_of cons) = Inr segs"
        "list_all2 (\<lambda>(a, b) (pa, pb). \<exists>ra \<in> set stars. \<exists>rb \<in> set stars.
                              hip ra = a \<and> hip rb = b
                              \<and> pa = (star_x ra, star_y ra) \<and> pb = (star_x rb, star_y rb))
                   (edges_of cons) segs"
      by blast
    have c1: "filter is_AddCollection (fst (generate_starmap w ?p1))
                     = (if use_constellations p
                        then [AddCollection segs (constellation_color p) (constellation_width p)]
                        else [])"
      using collection_of_run[OF co ob1] segs(1) by (simp add: collection_def)
    with same have c2: "filter is_AddCollection (fst (generate_starmap w ?p2))
                     = (if use_constellations p
                        then [AddCollection segs (constellation_color p) (constellation_width p)]
                        else [])"
      by simp
    from hips segs(2) c1 c2 show ?thesis by blast
  qed
  from same full show ?thesis by blast
qed

text \<open>
  With \<^verbatim>\<open>max_magnitude = 10\<close> the second star of the small world is not plotted, and the
  segment that ends at its position \<open>(2, -1)\<close> is drawn as with \<^verbatim>\<open>max_magnitude = 15\<close>.
\<close>

theorem C9_segments_ignore_magnitude_witness:
  "filter is_AddCollection (fst (generate_starmap demo_world (demo_params\<lparr>max_magnitude := ''10''\<rparr>)))
     = filter is_AddCollection (fst (generate_starmap demo_world (demo_params\<lparr>max_magnitude := ''15''\<rparr>)))
   \<and> filter is_AddCollection (fst (generate_starmap demo_world (demo_params\<lparr>max_magnitude := ''10''\<rparr>)))
     = [AddCollection [((1 / 2, 0), (2, - 1))] ''#ffffff'' 0.3]
   \<and> filter is_Scatter (fst (generate_starmap demo_world (demo_params\<lparr>max_magnitude := ''10''\<rparr>)))
     = [Scatter [1 / 2] [0] [clip (marker_size 100 1) 400] ''#ffffff'']
   \<and> distinct (map hip demo_stars)
   \<and> (\<exists>segs.
         list_all2 (\<lambda>(a, b) (pa, pb). \<exists>ra \<in> set demo_stars. \<exists>rb \<in> set demo_stars.
                      hip ra = a \<and> hip rb = b
                      \<and> pa = (ra_degrees ra / 90, dec_degrees ra / 45)
                      \<and> pb = (ra_degrees rb / 90, dec_degrees rb / 45))
           [(1, 2)] segs
         \<and> filter is_AddCollection
             (fst (generate_starmap demo_world (demo_params\<lparr>max_magnitude := ''15''\<rparr>)))
             = [AddCollection segs ''#ffffff'' 0.3])"
proof -
  let ?stars = "map (with_xy (\<lambda>r. (ra_degrees r / 90, dec_degrees r / 45))) demo_stars"
  have m: "py_int ''10'' = Some 10" "(0 :: int) \<le> 10" "(10 :: int) \<le> 15"
    "py_int ''15'' = Some 15" "(0 :: int) \<le> 15" "(15 :: int) \<le> 15"
    by (simp_all add: py_int_eval)
  have same: "demo_params\<lparr>max_magnitude := ''10''\<rparr> = demo_params"
    by (simp add: demo_params_def)
  have ok: "ShowOk ''Done!'' \<in> set (fst (generate_starmap demo_world
              (demo_params\<lparr>max_magnitude := ''10''\<rparr>)))"
    by (simp add: same demo_run)
  have co: "coerce demo_world (demo_params\<lparr>max_magnitude := ''10''\<rparr>) = Inr
      \<lparr>lat_f = 44.5, long_f = 26.25, star_scaling_i = 100,
       max_magnitude_i = 10, dpi_i = 300, star_limit_i = 400\<rparr>"
    by (simp add: same demo_coerce)
  have cat: "load_hipparcos demo_world = Inr demo_stars" by (simp add: demo_world_def)
  have dis: "distinct (map hip demo_stars)" by (simp add: demo_stars_def)
  note run = C9_segments_ignore_magnitude[OF m, where w = demo_world and p = demo_params
          and v = "\<lparr>lat_f = 44.5, long_f = 26.25, star_scaling_i = 100,
                   max_magnitude_i = 10, dpi_i = 300, star_limit_i = 400\<rparr>"
          and started = loads and stars = ?stars and cons = "[(''Dem'', [(1, 2)])]"
          and catalog = demo_stars]
  from run
  have inv: "filter is_AddCollection (fst (generate_starmap demo_world (demo_params\<lparr>max_magnitude := ''10''\<rparr>)))
     = filter is_AddCollection (fst (generate_starmap demo_world (demo_params\<lparr>max_magnitude := ''15''\<rparr>)))"
    by blast
  from run ok co demo_observe[of 10] cat dis
  have ex: "\<exists>segs.
         list_all2 (\<lambda>(a, b) (pa, pb). \<exists>ra \<in> set ?stars. \<exists>rb \<in> set ?stars.
                      hip ra = a \<and> hip rb = b
                      \<and> pa = (star_x ra, star_y ra) \<and> pb = (star_x rb, star_y rb))
           (edges_of [(''Dem'', [(1, 2)])]) segs
         \<and> filter is_AddCollection
             (fst (generate_starmap demo_world (demo_params\<lparr>max_magnitude := ''15''\<rparr>)))
             = (if use_constellations demo_params
                then [AddCollection segs (constellation_color demo_params)
                        (constellation_width demo_params)]
                else [])"
    by blast
  from ex have ex': "\<exists>segs.
         list_all2 (\<lambda>(a, b) (pa, pb). \<exists>ra \<in> set demo_stars. \<exists>rb \<in> set demo_stars.
                      hip ra = a \<and> hip rb = b
                      \<and> pa = (ra_degrees ra / 90, dec_degrees ra / 45)
                      \<and> pb = (ra_degrees rb / 90, dec_degrees rb / 45))
           [(1, 2)] segs
         \<and> filter is_AddCollection
             (fst (generate_starmap demo_world (demo_params\<lparr>max_magnitude := ''15''\<rparr>)))
             = [AddCollection segs ''#ffffff'' 0.3]"
    by (simp add: edges_of_def demo_params_def)
  from inv ex' dis show ?thesis by (simp add: same demo_run)
qed

subsection \<open>C10: the window of the axes\<close>



end
